theory Spec2Isabelle
  imports Main
begin

section \<open>Memory model for the slice-backed optional\<close>

text \<open>
  The package declares
  \<^verbatim>\<open>type Optional[T any] container[T]\<close> and \<^verbatim>\<open>type container[T any] []T\<close>:
  an optional is a Go slice. A slice is either \<^verbatim>\<open>nil\<close> or a header naming a backing
  array; the composite literal \<^verbatim>\<open>Optional[T]{value}\<close> allocates a fresh one-element
  array. The store of all variables of type \<open>T\<close> is a list of cells, an address is an index
  into it, and allocation appends. The capacity of a slice is never read by the package and
  is left out of the header.
\<close>

type_synonym addr = nat

type_synonym 'a heap = "'a list"

text \<open>
  What stops a Go function abnormally. \<open>Fault\<close> is a read or write at an address that
  was never allocated; Go cannot produce such an address, the model reports it instead of
  reading an unspecified cell.
\<close>

datatype panic = NilDereference | IndexOutOfRange | Fault

text \<open>A pointer \<^verbatim>\<open>*T\<close>: nil, or the address of a cell of type \<open>T\<close>.\<close>

datatype 'a pointer = NilPtr | Addr addr

text \<open>A slice \<^verbatim>\<open>[]T\<close>: nil, or the base address and the length of its backing array.\<close>

datatype 'a container = nil | Slice addr nat

type_synonym 'a Optional = "'a container"

text \<open>
  The outcome of calling code the package does not own (a caller-supplied function, the
  JSON encoder and decoder): from the caller's state \<open>'w\<close> it either panics or returns a
  result and a new state.
\<close>

type_synonym ('r, 'w) call = "'w \<Rightarrow> panic + ('r \<times> 'w)"

definition load :: "'a heap \<Rightarrow> addr \<Rightarrow> panic + 'a" where
  "load h a = (if a < length h then Inr (h ! a) else Inl Fault)"

text \<open>The assignment \<^verbatim>\<open>*p = x\<close>.\<close>

definition store :: "'a heap \<Rightarrow> 'a pointer \<Rightarrow> 'a \<Rightarrow> panic + 'a heap" where
  "store h p x =
     (case p of
        NilPtr \<Rightarrow> Inl NilDereference
      | Addr a \<Rightarrow> if a < length h then Inr (h[a := x]) else Inl Fault)"

text \<open>The expression \<^verbatim>\<open>*p\<close>.\<close>

definition deref :: "'a heap \<Rightarrow> 'a pointer \<Rightarrow> panic + 'a" where
  "deref h p = (case p of NilPtr \<Rightarrow> Inl NilDereference | Addr a \<Rightarrow> load h a)"

text \<open>The index expression \<^verbatim>\<open>s[i]\<close>, with Go's bounds check.\<close>

definition index :: "'a heap \<Rightarrow> 'a container \<Rightarrow> nat \<Rightarrow> panic + 'a" where
  "index h s i =
     (case s of
        nil \<Rightarrow> Inl IndexOutOfRange
      | Slice a n \<Rightarrow> if i < n then load h (a + i) else Inl IndexOutOfRange)"

text \<open>The address-of expression \<^verbatim>\<open>&s[i]\<close>, with the same bounds check.\<close>

definition index_addr :: "'a container \<Rightarrow> nat \<Rightarrow> panic + 'a pointer" where
  "index_addr s i =
     (case s of
        nil \<Rightarrow> Inl IndexOutOfRange
      | Slice a n \<Rightarrow> if i < n then Inr (Addr (a + i)) else Inl IndexOutOfRange)"

text \<open>The composite literal \<^verbatim>\<open>Optional[T]{x1, ..., xn}\<close>: a new backing array.\<close>

definition literal :: "'a heap \<Rightarrow> 'a list \<Rightarrow> 'a Optional \<times> 'a heap" where
  "literal h xs = (Slice (length h) (length xs), h @ xs)"

section \<open>Constructors\<close>

text \<open>\<^verbatim>\<open>func NewEmpty[T any]() Optional[T] { return nil }\<close>\<close>

definition NewEmpty :: "'a Optional" where
  "NewEmpty = nil"

text \<open>\<^verbatim>\<open>func New[T any](value T) Optional[T] { return Optional[T]{value} }\<close>\<close>

definition New :: "'a heap \<Rightarrow> 'a \<Rightarrow> 'a Optional \<times> 'a heap" where
  "New h v = literal h [v]"

text \<open>\<^verbatim>\<open>NewMap(v, fn)\<close> returns \<^verbatim>\<open>New(fn(v))\<close>; \<open>h\<close> is the store of the result type.\<close>

definition NewMap ::
  "'b heap \<Rightarrow> 'a \<Rightarrow> ('a \<Rightarrow> ('b, 'w) call) \<Rightarrow> ('b Optional \<times> 'b heap, 'w) call" where
  "NewMap h v fn w =
     (case fn v w of
        Inl p \<Rightarrow> Inl p
      | Inr (r, w') \<Rightarrow> Inr (New h r, w'))"

definition NewSafe :: "'a heap \<Rightarrow> 'a \<Rightarrow> bool \<Rightarrow> 'a Optional \<times> 'a heap" where
  "NewSafe h v ok = (if ok then literal h [v] else (nil, h))"

definition NewIf ::
  "'a heap \<Rightarrow> 'a \<Rightarrow> ('a \<Rightarrow> (bool, 'w) call) \<Rightarrow> ('a Optional \<times> 'a heap, 'w) call" where
  "NewIf h v fn w =
     (case fn v w of
        Inl p \<Rightarrow> Inl p
      | Inr (b, w') \<Rightarrow> if b then Inr (New h v, w') else Inr ((NewEmpty, h), w'))"

definition NewPtr :: "'a heap \<Rightarrow> 'a pointer \<Rightarrow> panic + ('a Optional \<times> 'a heap)" where
  "NewPtr h ptr =
     (if ptr = NilPtr then Inr (NewEmpty, h)
      else case deref h ptr of
             Inl p \<Rightarrow> Inl p
           | Inr x \<Rightarrow> Inr (New h x))"

text \<open>\<open>hin\<close> holds the cell \<open>ptr\<close> points to, \<open>h\<close> is the store of the result type.\<close>

definition NewPtrMap ::
  "'a heap \<Rightarrow> 'b heap \<Rightarrow> 'a pointer \<Rightarrow> ('a \<Rightarrow> ('b, 'w) call)
     \<Rightarrow> ('b Optional \<times> 'b heap, 'w) call" where
  "NewPtrMap hin h ptr fn w =
     (if ptr = NilPtr then Inr ((NewEmpty, h), w)
      else case deref hin ptr of
             Inl p \<Rightarrow> Inl p
           | Inr x \<Rightarrow>
               (case fn x w of
                  Inl p \<Rightarrow> Inl p
                | Inr (r, w') \<Rightarrow> Inr (New h r, w')))"

text \<open>
  \<^verbatim>\<open>NewPtrIf\<close> reads \<^verbatim>\<open>*ptr\<close> twice, before and after the call of \<open>fn\<close>. The state \<open>fn\<close>
  works on therefore includes the store \<open>ptr\<close> points into: the second read sees what
  \<open>fn\<close> has left there.
\<close>

definition NewPtrIf ::
  "'a heap \<Rightarrow> 'a pointer \<Rightarrow> ('a \<Rightarrow> (bool, 'a heap \<times> 'w) call)
     \<Rightarrow> ('a Optional \<times> 'a heap, 'w) call" where
  "NewPtrIf h ptr fn w =
     (if ptr = NilPtr then Inr ((NewEmpty, h), w)
      else case deref h ptr of
             Inl p \<Rightarrow> Inl p
           | Inr x \<Rightarrow>
               (case fn x (h, w) of
                  Inl p \<Rightarrow> Inl p
                | Inr (b, (h1, w')) \<Rightarrow>
                    if \<not> b then Inr ((NewEmpty, h1), w')
                    else (case deref h1 ptr of
                            Inl p \<Rightarrow> Inl p
                          | Inr y \<Rightarrow> Inr (New h1 y, w'))))"

definition NewPtrOr :: "'a heap \<Rightarrow> 'a pointer \<Rightarrow> 'a \<Rightarrow> panic + ('a Optional \<times> 'a heap)" where
  "NewPtrOr h ptr fallback =
     (if ptr = NilPtr then Inr (New h fallback)
      else case deref h ptr of
             Inl p \<Rightarrow> Inl p
           | Inr x \<Rightarrow> Inr (New h x))"

section \<open>Accessors\<close>

definition Ok :: "'a Optional \<Rightarrow> bool" where
  "Ok o' = (o' \<noteq> nil)"

text \<open>
  The named results \<^verbatim>\<open>(value T, ok bool)\<close> start at their zero values and the bare
  \<^verbatim>\<open>return\<close> hands them back; \<open>zero\<close> is the zero value of \<open>T\<close>.
\<close>

definition Get :: "'a \<Rightarrow> 'a heap \<Rightarrow> 'a Optional \<Rightarrow> panic + ('a \<times> bool)" where
  "Get zero h o' =
     (if o' = nil then Inr (zero, False)
      else case index h o' 0 of
             Inl p \<Rightarrow> Inl p
           | Inr x \<Rightarrow> Inr (x, True))"

definition Ptr :: "'a Optional \<Rightarrow> panic + 'a pointer" where
  "Ptr o' = (if o' = nil then Inr NilPtr else index_addr o' 0)"

definition Or :: "'a heap \<Rightarrow> 'a Optional \<Rightarrow> 'a \<Rightarrow> panic + 'a" where
  "Or h o' v = (if o' = nil then Inr v else index h o' 0)"

definition OrCall :: "'a heap \<Rightarrow> 'a Optional \<Rightarrow> ('a, 'w) call \<Rightarrow> ('a, 'w) call" where
  "OrCall h o' fn w =
     (if o' \<noteq> nil then
        (case index h o' 0 of
           Inl p \<Rightarrow> Inl p
         | Inr x \<Rightarrow> Inr (x, w))
      else fn w)"

definition OrZero :: "'a \<Rightarrow> 'a heap \<Rightarrow> 'a Optional \<Rightarrow> panic + 'a" where
  "OrZero zero h o' = (if o' = nil then Inr zero else index h o' 0)"

section \<open>Conditional pipelines\<close>

text \<open>
  \<open>hin\<close> is the store of the input type, \<open>hout\<close> the store of the output type in which
  the result's backing array is allocated. The named result \<^verbatim>\<open>v Optional[Out]\<close> is nil
  at the bare \<^verbatim>\<open>return\<close>.
\<close>

definition Map ::
  "'a heap \<Rightarrow> 'b heap \<Rightarrow> 'a Optional \<Rightarrow> ('a \<Rightarrow> ('b, 'w) call)
     \<Rightarrow> ('b Optional \<times> 'b heap, 'w) call" where
  "Map hin hout in' fn w =
     (if in' = nil then Inr ((nil, hout), w)
      else case index hin in' 0 of
             Inl p \<Rightarrow> Inl p
           | Inr x \<Rightarrow>
               (case fn x w of
                  Inl p \<Rightarrow> Inl p
                | Inr (y, w') \<Rightarrow> Inr (literal hout [y], w')))"

text \<open>
  A Go \<^verbatim>\<open>error\<close> is \<open>'e option\<close>, \<open>None\<close> for the nil error. The function returns the
  optional (with the output store) and the error.
\<close>

definition MapErr ::
  "'a heap \<Rightarrow> 'b heap \<Rightarrow> 'a Optional \<Rightarrow> ('a \<Rightarrow> ('b \<times> 'e option, 'w) call)
     \<Rightarrow> (('b Optional \<times> 'b heap) \<times> 'e option, 'w) call" where
  "MapErr hin hout in' fn w =
     (if in' = nil then Inr (((nil, hout), None), w)
      else case index hin in' 0 of
             Inl p \<Rightarrow> Inl p
           | Inr x \<Rightarrow>
               (case fn x w of
                  Inl p \<Rightarrow> Inl p
                | Inr ((out, err), w') \<Rightarrow>
                    if err \<noteq> None then Inr (((nil, hout), err), w')
                    else Inr ((literal hout [out], None), w')))"

section \<open>The two states\<close>

definition Empty :: "'a Optional \<Rightarrow> bool" where
  "Empty o' = (o' = nil)"

text \<open>\<open>Present h o v\<close>: in store \<open>h\<close>, \<open>o\<close> is a one-element slice whose cell holds \<open>v\<close>.\<close>

definition Present :: "'a heap \<Rightarrow> 'a Optional \<Rightarrow> 'a \<Rightarrow> bool" where
  "Present h o' v =
     (case o' of nil \<Rightarrow> False | Slice a n \<Rightarrow> n = 1 \<and> a < length h \<and> h ! a = v)"

text \<open>The values the constructors build: nil, or a one-element slice allocated in \<open>h\<close>.\<close>

definition constructed :: "'a heap \<Rightarrow> 'a Optional \<Rightarrow> bool" where
  "constructed h o' = (case o' of nil \<Rightarrow> True | Slice a n \<Rightarrow> n = 1 \<and> a < length h)"

text \<open>In store \<open>h\<close>, \<open>o\<close> is in exactly one of the two states, and \<open>Ok\<close> says which.\<close>

abbreviation one_of_two_states :: "'a heap \<Rightarrow> 'a Optional \<Rightarrow> bool" where
  "one_of_two_states h o' \<equiv>
     (Empty o' \<noteq> (\<exists>x. Present h o' x)) \<and> Ok o' = (\<exists>x. Present h o' x)"

section \<open>JSON\<close>

text \<open>
  \<^verbatim>\<open>json.Marshal\<close> and \<^verbatim>\<open>json.Unmarshal\<close> belong to the standard library; the two
  methods take them as parameters. \<open>json_Marshal v\<close> returns the bytes and the error of
  \<^verbatim>\<open>json.Marshal(v)\<close>. \<open>json_Unmarshal data v0\<close> is \<^verbatim>\<open>json.Unmarshal(data, &v)\<close> for a
  variable \<open>v\<close> that holds \<open>v0\<close> before the call: it returns what \<open>v\<close> holds after the call,
  and the error. Bytes are \<open>char\<close>s, so \<^verbatim>\<open>[]byte("null")\<close> is \<open>''null''\<close>.
\<close>

definition MarshalJSON ::
  "('a \<Rightarrow> (string \<times> 'e option, 'w) call) \<Rightarrow> 'a \<Rightarrow> 'a heap \<Rightarrow> 'a Optional
     \<Rightarrow> (string \<times> 'e option, 'w) call" where
  "MarshalJSON json_Marshal zero h o' w =
     (case Get zero h o' of
        Inl p \<Rightarrow> Inl p
      | Inr (v, ok) \<Rightarrow> if ok then json_Marshal v w else Inr ((''null'', None), w))"

text \<open>
  The receiver \<^verbatim>\<open>o *Optional[T]\<close> points into \<open>ho\<close>, the store of the variables of type
  \<^verbatim>\<open>Optional[T]\<close>; \<open>h\<close> is the store of \<open>T\<close>, in which \<^verbatim>\<open>New(v)\<close> allocates. The local
  \<^verbatim>\<open>var v T\<close> starts at \<open>zero\<close>. The result is the error and the two stores.
\<close>

definition UnmarshalJSON ::
  "(string \<Rightarrow> 'a \<Rightarrow> ('a \<times> 'e option, 'w) call) \<Rightarrow> 'a \<Rightarrow> 'a Optional heap \<Rightarrow> 'a heap
     \<Rightarrow> 'a Optional pointer \<Rightarrow> string \<Rightarrow> ('e option \<times> 'a Optional heap \<times> 'a heap, 'w) call" where
  "UnmarshalJSON json_Unmarshal zero ho h o' data w =
     (if data = ''null'' then
        (case store ho o' NewEmpty of
           Inl p \<Rightarrow> Inl p
         | Inr ho' \<Rightarrow> Inr ((None, ho', h), w))
      else case json_Unmarshal data zero w of
             Inl p \<Rightarrow> Inl p
           | Inr ((v, err), w') \<Rightarrow>
               if err \<noteq> None then Inr ((err, ho, h), w')
               else (case New h v of
                       (x, h') \<Rightarrow>
                         (case store ho o' x of
                            Inl p \<Rightarrow> Inl p
                          | Inr ho' \<Rightarrow> Inr ((None, ho', h'), w'))))"

section \<open>Callers used as examples\<close>

text \<open>
  A caller-supplied function that computes \<open>f\<close> and counts its invocations in the caller's
  state, as the invocation counters of the package's tests do.
\<close>

definition counted :: "('a \<Rightarrow> 'b) \<Rightarrow> 'a \<Rightarrow> ('b, nat) call" where
  "counted f x n = Inr (f x, Suc n)"

text \<open>
  A predicate that answers true after writing \<open>c\<close> into the cell at address 0 of the store
  it is given, and counts.
\<close>

definition rewriting :: "'a \<Rightarrow> 'a \<Rightarrow> (bool, 'a heap \<times> nat) call" where
  "rewriting c x s = Inr (True, ((fst s)[0 := c], Suc (snd s)))"

text \<open>A fallible caller-supplied function: it fails on negative input, and counts.\<close>

definition checked_pred :: "int \<Rightarrow> (int \<times> string option, nat) call" where
  "checked_pred x n = (if x < 0 then Inr ((0, Some ''negative''), Suc n) else Inr ((x - 1, None), Suc n))"

text \<open>
  The standard library's wire form of \<^verbatim>\<open>bool\<close>, on undecorated tokens: \<^verbatim>\<open>true\<close> and
  \<^verbatim>\<open>false\<close>; \<^verbatim>\<open>null\<close> leaves the variable as it is; every other input is reported as
  a decode error.
\<close>

datatype json_error = DecodeError

definition json_Marshal_bool :: "bool \<Rightarrow> (string \<times> json_error option, 'w) call" where
  "json_Marshal_bool b w = Inr ((if b then ''true'' else ''false'', None), w)"

definition json_Unmarshal_bool :: "string \<Rightarrow> bool \<Rightarrow> (bool \<times> json_error option, 'w) call" where
  "json_Unmarshal_bool data v w =
     (if data = ''true'' then Inr ((True, None), w)
      else if data = ''false'' then Inr ((False, None), w)
      else if data = ''null'' then Inr ((v, None), w)
      else Inr ((v, Some DecodeError), w))"

text \<open>
  The payload type \<^verbatim>\<open>Optional[bool]\<close>. The standard library encodes a value whose type has
  a \<^verbatim>\<open>MarshalJSON\<close> method by calling it, and decodes into a variable whose address has an
  \<^verbatim>\<open>UnmarshalJSON\<close> method by calling that. The caller's state of this codec is the store
  of \<^verbatim>\<open>bool\<close>; the variable \<open>v\<close> decoded into is the one-cell store \<open>[v]\<close>.
\<close>

definition json_Marshal_Optional_bool ::
  "bool Optional \<Rightarrow> (string \<times> json_error option, bool heap) call" where
  "json_Marshal_Optional_bool v hb =
     (case MarshalJSON json_Marshal_bool False hb v () of
        Inl p \<Rightarrow> Inl p
      | Inr (r, u) \<Rightarrow> Inr (r, hb))"

definition json_Unmarshal_Optional_bool ::
  "string \<Rightarrow> bool Optional \<Rightarrow> (bool Optional \<times> json_error option, bool heap) call" where
  "json_Unmarshal_Optional_bool data v hb =
     (case UnmarshalJSON json_Unmarshal_bool False [v] hb (Addr 0) data () of
        Inl p \<Rightarrow> Inl p
      | Inr ((err, ho, hb'), u) \<Rightarrow> Inr ((ho ! 0, err), hb'))"

section \<open>Constructors build Empty or Present\<close>

lemma Present_literal: "Present (snd (literal h [v])) (fst (literal h [v])) v"
  by (simp add: Present_def literal_def)

lemma Present_New: "New h v = (o', h') \<Longrightarrow> Present h' o' v"
  by (auto simp: New_def Present_def literal_def)

lemma Present_constructed: "Present h o' v \<Longrightarrow> constructed h o'"
  by (auto simp: Present_def constructed_def split: container.splits)

lemma constructed_NewEmpty: "constructed h NewEmpty"
  by (simp add: constructed_def NewEmpty_def)

lemma constructed_New: "New h v = (o', h') \<Longrightarrow> constructed h' o'"
  by (auto simp: New_def constructed_def literal_def)

lemma constructed_append: "constructed h o' \<Longrightarrow> constructed (h @ xs) o'"
  by (auto simp: constructed_def split: container.splits)

lemma constructed_NewSafe: "NewSafe h v ok = (o', h') \<Longrightarrow> constructed h' o'"
  by (auto simp: NewSafe_def constructed_def literal_def split: if_splits)

lemma constructed_NewMap: "NewMap h v fn w = Inr ((o', h'), w') \<Longrightarrow> constructed h' o'"
  by (auto simp: NewMap_def dest: constructed_New split: sum.splits)

lemma constructed_NewIf: "NewIf h v fn w = Inr ((o', h'), w') \<Longrightarrow> constructed h' o'"
  by (auto simp: NewIf_def constructed_NewEmpty dest: constructed_New
      split: sum.splits if_splits)

lemma constructed_NewPtr: "NewPtr h ptr = Inr (o', h') \<Longrightarrow> constructed h' o'"
  by (auto simp: NewPtr_def constructed_NewEmpty dest: constructed_New
      split: sum.splits if_splits)

lemma constructed_NewPtrMap:
  "NewPtrMap hin h ptr fn w = Inr ((o', h'), w') \<Longrightarrow> constructed h' o'"
  by (auto simp: NewPtrMap_def constructed_NewEmpty dest: constructed_New
      split: sum.splits if_splits)

lemma constructed_NewPtrIf: "NewPtrIf h ptr fn w = Inr ((o', h'), w') \<Longrightarrow> constructed h' o'"
  by (auto simp: NewPtrIf_def constructed_NewEmpty dest: constructed_New
      split: sum.splits if_splits prod.splits)

lemma constructed_NewPtrOr: "NewPtrOr h ptr fallback = Inr (o', h') \<Longrightarrow> constructed h' o'"
  by (auto simp: NewPtrOr_def dest: constructed_New split: sum.splits if_splits)

lemma constructed_Map: "Map hin hout in' fn w = Inr ((o', h'), w') \<Longrightarrow> constructed h' o'"
  by (auto simp: Map_def constructed_def literal_def split: sum.splits if_splits)

lemma constructed_MapErr:
  "MapErr hin hout in' fn w = Inr (((o', h'), err), w') \<Longrightarrow> constructed h' o'"
  by (auto simp: MapErr_def constructed_def literal_def split: sum.splits if_splits)

section \<open>Reading a Present optional\<close>

lemma Present_not_nil: "Present h o' v \<Longrightarrow> o' \<noteq> nil"
  by (auto simp: Present_def)

lemma Present_index: "Present h o' v \<Longrightarrow> index h o' 0 = Inr v"
  by (auto simp: Present_def index_def load_def split: container.splits)

lemma Present_unique: "Present h o' x \<Longrightarrow> Present h o' y \<Longrightarrow> x = y"
  by (auto simp: Present_def split: container.splits)

lemma Present_Get: "Present h o' v \<Longrightarrow> Get zero h o' = Inr (v, True)"
  by (simp add: Get_def Present_not_nil Present_index)

lemma constructed_cases: "constructed h o' \<Longrightarrow> o' = nil \<or> (\<exists>x. Present h o' x)"
  by (auto simp: constructed_def Present_def split: container.splits)

section \<open>Construction\<close>

text \<open>
  C7. Safe-pair construction: for every value \<open>v\<close>, \<open>NewSafe(v, true)\<close> is an optional
  that holds \<open>v\<close>, and \<open>NewSafe(v, false)\<close> is the empty optional (and allocates nothing).
\<close>

theorem NewSafe_contract:
  "(\<exists>o' h'. NewSafe h v True = (o', h') \<and> Present h' o' v \<and> \<not> Empty o')
   \<and> NewSafe h v False = (NewEmpty, h)
   \<and> Empty (fst (NewSafe h v False))"
  by (simp add: NewSafe_def NewEmpty_def Empty_def Present_def literal_def)

section \<open>Access\<close>

text \<open>
  C5. Accessing an empty optional never fails and yields the zero value: \<open>Get\<close> on the empty
  optional returns the zero value of \<open>T\<close> and false, \<open>OrZero\<close> returns the zero value; on an
  optional holding \<open>v\<close>, \<open>Get\<close> returns \<open>v\<close> and true, and \<open>OrZero\<close> returns \<open>v\<close>. None of
  the four panics.
\<close>

theorem access_never_fails:
  "Get zero h NewEmpty = Inr (zero, False)
   \<and> OrZero zero h NewEmpty = Inr zero
   \<and> (Present h o' v \<longrightarrow> Get zero h o' = Inr (v, True) \<and> OrZero zero h o' = Inr v)"
  by (simp add: Get_def OrZero_def NewEmpty_def Present_not_nil Present_index)

theorem access_never_fails_witness:
  "Present [''a'', ''b''] (Slice 1 1) ''b''
   \<and> Get [] [''a'', ''b''] (Slice 1 1) = Inr (''b'', True)
   \<and> OrZero [] [''a'', ''b''] (Slice 1 1) = Inr ''b''"
proof -
  have p: "Present [''a'', ''b''] (Slice 1 1) ''b''"
    by (simp add: Present_def)
  from access_never_fails [of "[]" "[''a'', ''b'']" "Slice 1 1" "''b''"] p
  show ?thesis
    by simp
qed

section \<open>Pointers in and out\<close>

lemma NewPtr_Addr:
  "a < length h \<Longrightarrow> NewPtr h (Addr a) = Inr (Slice (length h) 1, h @ [h ! a])"
  by (simp add: NewPtr_def deref_def load_def New_def literal_def)

lemma NewPtrOr_Addr:
  "a < length h \<Longrightarrow> NewPtrOr h (Addr a) fallback = Inr (Slice (length h) 1, h @ [h ! a])"
  by (simp add: NewPtrOr_def deref_def load_def New_def literal_def)

lemma NewPtrOr_nil: "NewPtrOr h NilPtr fallback = Inr (Slice (length h) 1, h @ [fallback])"
  by (simp add: NewPtrOr_def New_def literal_def)

lemma NewPtrOr_not_nil: "NewPtrOr h ptr fallback = Inr (o', h') \<Longrightarrow> o' \<noteq> nil"
  by (auto simp: NewPtrOr_def New_def literal_def split: if_splits sum.splits)

text \<open>
  C4. Fallback asymmetry of the pointer constructors. \<open>NewPtr\<close> of the nil pointer is the
  empty optional, \<open>NewPtrOr\<close> of the nil pointer and a fallback holds the fallback. For a
  pointer to a cell both hold a copy of the cell's value. Whatever the pointer and the
  fallback, an optional returned by \<open>NewPtrOr\<close> is never empty.
\<close>

theorem pointer_constructors_asymmetry:
  "NewPtr h NilPtr = Inr (NewEmpty, h)
   \<and> (\<exists>o' h'. NewPtrOr h NilPtr fallback = Inr (o', h') \<and> Present h' o' fallback
        \<and> \<not> Empty o')
   \<and> (a < length h \<longrightarrow>
        (\<exists>o' h'. NewPtr h (Addr a) = Inr (o', h') \<and> Present h' o' (h ! a))
        \<and> (\<exists>o' h'. NewPtrOr h (Addr a) fallback = Inr (o', h') \<and> Present h' o' (h ! a)))
   \<and> (NewPtrOr h ptr fallback = Inr (r, hr) \<longrightarrow> \<not> Empty r \<and> Ok r)"
proof -
  have 1: "NewPtr h NilPtr = Inr (NewEmpty, h)"
    by (simp add: NewPtr_def)
  have 2: "\<exists>o' h'. NewPtrOr h NilPtr fallback = Inr (o', h') \<and> Present h' o' fallback
        \<and> \<not> Empty o'"
    by (simp add: NewPtrOr_nil Present_def Empty_def)
  have 3: "a < length h \<longrightarrow>
        (\<exists>o' h'. NewPtr h (Addr a) = Inr (o', h') \<and> Present h' o' (h ! a))
        \<and> (\<exists>o' h'. NewPtrOr h (Addr a) fallback = Inr (o', h') \<and> Present h' o' (h ! a))"
    by (simp add: NewPtr_Addr NewPtrOr_Addr Present_def)
  have 4: "NewPtrOr h ptr fallback = Inr (r, hr) \<longrightarrow> \<not> Empty r \<and> Ok r"
    by (auto simp: Empty_def Ok_def dest: NewPtrOr_not_nil)
  show ?thesis
    by (rule conjI [OF 1 conjI [OF 2 conjI [OF 3 4]]])
qed

theorem pointer_constructors_asymmetry_witness:
  "(0::nat) < length [5::int]
   \<and> NewPtr [5::int] (Addr 0) = Inr (Slice 1 1, [5, 5])
   \<and> NewPtrOr [5::int] (Addr 0) 9 = Inr (Slice 1 1, [5, 5])
   \<and> \<not> Empty (Slice 1 1 :: int Optional)"
proof -
  have e: "NewPtrOr [5::int] (Addr 0) 9 = Inr (Slice 1 1, [5, 5])"
    by (simp add: NewPtrOr_Addr)
  have n: "NewPtr [5::int] (Addr 0) = Inr (Slice 1 1, [5, 5])"
    by (simp add: NewPtr_Addr)
  from pointer_constructors_asymmetry [of "[5::int]" 9 0 "Addr 0" "Slice 1 1" "[5, 5]"] e n
  show ?thesis
    by simp
qed

text \<open>
  C9. \<open>Ptr\<close> on the empty optional returns the nil pointer. On an optional holding \<open>v\<close> it
  returns a non-nil pointer to the one cell of the optional's own backing array, and reading
  through it yields \<open>v\<close>. That cell is the copy made at construction: for \<open>New(v)\<close> it did not
  exist before the call, and for \<open>NewPtr(p)\<close> it is another cell than the one \<open>p\<close> points to.
\<close>

theorem Ptr_contract:
  "Ptr (NewEmpty :: 'a Optional) = Inr NilPtr
   \<and> (Present h o' (v :: 'a) \<longrightarrow>
        (\<exists>a. Ptr o' = Inr (Addr a) \<and> o' = Slice a 1 \<and> deref h (Addr a) = Inr v))
   \<and> (New h0 v = (o', h) \<longrightarrow>
        Ptr o' = Inr (Addr (length h0)) \<and> deref h (Addr (length h0)) = Inr v
        \<and> deref h0 (Addr (length h0)) = Inl Fault)
   \<and> (b < length h0 \<and> NewPtr h0 (Addr b) = Inr (o', h) \<longrightarrow>
        (\<exists>a. Ptr o' = Inr (Addr a) \<and> a \<noteq> b \<and> deref h (Addr a) = Inr (h0 ! b)))"
proof -
  have 1: "Ptr (NewEmpty :: 'a Optional) = Inr NilPtr"
    by (simp add: Ptr_def NewEmpty_def)
  have 2: "Present h o' v \<longrightarrow>
        (\<exists>a. Ptr o' = Inr (Addr a) \<and> o' = Slice a 1 \<and> deref h (Addr a) = Inr v)"
    by (auto simp: Present_def Ptr_def index_addr_def deref_def load_def
        split: container.splits)
  have 3: "New h0 v = (o', h) \<longrightarrow>
        Ptr o' = Inr (Addr (length h0)) \<and> deref h (Addr (length h0)) = Inr v
        \<and> deref h0 (Addr (length h0)) = Inl Fault"
    by (auto simp: New_def literal_def Ptr_def index_addr_def deref_def load_def)
  have 4: "b < length h0 \<and> NewPtr h0 (Addr b) = Inr (o', h) \<longrightarrow>
        (\<exists>a. Ptr o' = Inr (Addr a) \<and> a \<noteq> b \<and> deref h (Addr a) = Inr (h0 ! b))"
  proof (intro impI, elim conjE)
    assume b: "b < length h0" and n: "NewPtr h0 (Addr b) = Inr (o', h)"
    from n b have "o' = Slice (length h0) 1" and "h = h0 @ [h0 ! b]"
      by (simp_all add: NewPtr_Addr)
    with b show "\<exists>a. Ptr o' = Inr (Addr a) \<and> a \<noteq> b \<and> deref h (Addr a) = Inr (h0 ! b)"
      by (simp add: Ptr_def index_addr_def deref_def load_def)
  qed
  show ?thesis
    by (rule conjI [OF 1 conjI [OF 2 conjI [OF 3 4]]])
qed

theorem Ptr_contract_witness:
  "Present [3, 4::int] (Slice 1 1) 4
   \<and> New [3::int] 4 = (Slice 1 1, [3, 4])
   \<and> (0::nat) < length [3::int] \<and> NewPtr [3::int] (Addr 0) = Inr (Slice 1 1, [3, 3])
   \<and> Ptr (Slice 1 1 :: int Optional) = Inr (Addr 1)
   \<and> deref [3, 4::int] (Addr 1) = Inr 4
   \<and> deref [3, 3::int] (Addr 1) = Inr 3"
proof -
  have p: "Present [3, 4::int] (Slice 1 1) 4"
    by (simp add: Present_def)
  have n: "New [3::int] 4 = (Slice 1 1, [3, 4])"
    by (simp add: New_def literal_def)
  have q: "NewPtr [3::int] (Addr 0) = Inr (Slice 1 1, [3, 3])"
    by (simp add: NewPtr_Addr)
  have d: "deref [3, 3::int] (Addr 1) = Inr 3"
    by (simp add: deref_def load_def)
  from Ptr_contract [of "[3, 4::int]" "Slice 1 1" 4 "[3]" 0] p n q d
  show ?thesis
    by simp
qed

section \<open>Caller-supplied functions\<close>

lemma Map_Present:
  "Present hin in' v \<Longrightarrow> fn v w = Inr (y, w') \<Longrightarrow>
     Map hin hout in' fn w = Inr ((Slice (length hout) 1, hout @ [y]), w')"
  by (simp add: Map_def Present_not_nil Present_index literal_def)

lemma MapErr_Present_ok:
  "Present hin in' v \<Longrightarrow> fn v w = Inr ((out, None), w') \<Longrightarrow>
     MapErr hin hout in' fn w = Inr (((Slice (length hout) 1, hout @ [out]), None), w')"
  by (simp add: MapErr_def Present_not_nil Present_index literal_def)

lemma MapErr_Present_err:
  "Present hin in' v \<Longrightarrow> fn v w = Inr ((out, Some e), w') \<Longrightarrow>
     MapErr hin hout in' fn w = Inr (((nil, hout), Some e), w')"
  by (simp add: MapErr_def Present_not_nil Present_index)

text \<open>
  C2. Map contract. On the empty optional \<open>Map\<close> returns the empty optional whatever \<open>fn\<close>
  is, with the output store and the caller's state untouched: \<open>fn\<close> is not invoked (a
  counting \<open>fn\<close> keeps its count). On an optional holding \<open>v\<close>, when \<open>fn(v)\<close> returns \<open>y\<close>,
  \<open>Map\<close> returns an optional holding \<open>y\<close>, and the caller's state is the one \<open>fn\<close> left (a
  counting \<open>fn\<close> has counted one call).
\<close>

theorem Map_contract:
  "Map hin hout NewEmpty fn w = Inr ((NewEmpty, hout), w)
   \<and> Map hin hout NewEmpty (counted f) n = Inr ((NewEmpty, hout), n)
   \<and> (Present hin in' v \<and> fn v w = Inr (y, w') \<longrightarrow>
        (\<exists>o' h'. Map hin hout in' fn w = Inr ((o', h'), w') \<and> Present h' o' y))
   \<and> (Present hin in' v \<longrightarrow>
        (\<exists>o' h'. Map hin hout in' (counted f) n = Inr ((o', h'), Suc n)
           \<and> Present h' o' (f v)))"
proof -
  have 1: "Map hin hout NewEmpty fn w = Inr ((NewEmpty, hout), w)"
    by (simp add: Map_def NewEmpty_def)
  have 2: "Map hin hout NewEmpty (counted f) n = Inr ((NewEmpty, hout), n)"
    by (simp add: Map_def NewEmpty_def)
  have 3: "Present hin in' v \<and> fn v w = Inr (y, w') \<longrightarrow>
        (\<exists>o' h'. Map hin hout in' fn w = Inr ((o', h'), w') \<and> Present h' o' y)"
  proof (intro impI, elim conjE)
    assume "Present hin in' v" and "fn v w = Inr (y, w')"
    then have "Map hin hout in' fn w = Inr ((Slice (length hout) 1, hout @ [y]), w')"
      by (rule Map_Present)
    then show "\<exists>o' h'. Map hin hout in' fn w = Inr ((o', h'), w') \<and> Present h' o' y"
      by (simp add: Present_def)
  qed
  have 4: "Present hin in' v \<longrightarrow>
        (\<exists>o' h'. Map hin hout in' (counted f) n = Inr ((o', h'), Suc n)
           \<and> Present h' o' (f v))"
  proof
    assume p: "Present hin in' v"
    have "counted f v n = Inr (f v, Suc n)"
      by (simp add: counted_def)
    with p have "Map hin hout in' (counted f) n
        = Inr ((Slice (length hout) 1, hout @ [f v]), Suc n)"
      by (rule Map_Present)
    then show "\<exists>o' h'. Map hin hout in' (counted f) n = Inr ((o', h'), Suc n)
           \<and> Present h' o' (f v)"
      by (simp add: Present_def)
  qed
  show ?thesis
    by (rule conjI [OF 1 conjI [OF 2 conjI [OF 3 4]]])
qed

theorem Map_contract_witness:
  "Present [41::int] (Slice 0 1) 41
   \<and> counted (\<lambda>x. x + 1) (41::int) 0 = Inr (42::int, Suc 0)
   \<and> (\<exists>o' h'. Map [41::int] [] (Slice 0 1) (counted (\<lambda>x. x + 1)) 0 = Inr ((o', h'), Suc 0)
         \<and> Present h' o' (42::int))"
proof -
  have p: "Present [41::int] (Slice 0 1) 41"
    by (simp add: Present_def)
  have c: "counted (\<lambda>x. x + 1) (41::int) 0 = Inr (42::int, Suc 0)"
    by (simp add: counted_def)
  from Map_contract [of "[41::int]" "[]" "counted (\<lambda>x. x + 1)" 0 "\<lambda>x. x + 1" 0
      "Slice 0 1" 41 42 "Suc 0"] p c
  show ?thesis
    by simp
qed

text \<open>
  C3. MapErr contract. On the empty optional \<open>MapErr\<close> returns the empty optional and no
  error whatever \<open>fn\<close> is, with the caller's state untouched: \<open>fn\<close> is not invoked. On an
  optional holding \<open>v\<close> it calls \<open>fn(v)\<close>: when \<open>fn\<close> returns the error \<open>e\<close>, the result is
  the empty optional and that same \<open>e\<close>; when \<open>fn\<close> returns \<open>out\<close> and no error, the result
  is an optional holding \<open>out\<close> and no error.
\<close>

theorem MapErr_contract:
  "MapErr hin hout NewEmpty fn w = Inr (((NewEmpty, hout), None), w)
   \<and> (Present hin in' v \<and> fn v w = Inr ((out, Some e), w') \<longrightarrow>
        MapErr hin hout in' fn w = Inr (((NewEmpty, hout), Some e), w'))
   \<and> (Present hin in' v \<and> fn v w = Inr ((out, None), w') \<longrightarrow>
        (\<exists>o' h'. MapErr hin hout in' fn w = Inr (((o', h'), None), w')
           \<and> Present h' o' out))"
proof -
  have 1: "MapErr hin hout NewEmpty fn w = Inr (((NewEmpty, hout), None), w)"
    by (simp add: MapErr_def NewEmpty_def)
  have 2: "Present hin in' v \<and> fn v w = Inr ((out, Some e), w') \<longrightarrow>
        MapErr hin hout in' fn w = Inr (((NewEmpty, hout), Some e), w')"
  proof (intro impI, elim conjE)
    assume "Present hin in' v" and "fn v w = Inr ((out, Some e), w')"
    then have "MapErr hin hout in' fn w = Inr (((nil, hout), Some e), w')"
      by (rule MapErr_Present_err)
    then show "MapErr hin hout in' fn w = Inr (((NewEmpty, hout), Some e), w')"
      by (simp add: NewEmpty_def)
  qed
  have 3: "Present hin in' v \<and> fn v w = Inr ((out, None), w') \<longrightarrow>
        (\<exists>o' h'. MapErr hin hout in' fn w = Inr (((o', h'), None), w')
           \<and> Present h' o' out)"
  proof (intro impI, elim conjE)
    assume "Present hin in' v" and "fn v w = Inr ((out, None), w')"
    then have "MapErr hin hout in' fn w
        = Inr (((Slice (length hout) 1, hout @ [out]), None), w')"
      by (rule MapErr_Present_ok)
    then show "\<exists>o' h'. MapErr hin hout in' fn w = Inr (((o', h'), None), w')
           \<and> Present h' o' out"
      by (simp add: Present_def)
  qed
  show ?thesis
    by (rule conjI [OF 1 conjI [OF 2 3]])
qed

theorem MapErr_contract_witness:
  "Present [5, - 2 :: int] (Slice 0 1) 5 \<and> Present [5, - 2 :: int] (Slice 1 1) (- 2)
   \<and> checked_pred 5 0 = Inr ((4, None), Suc 0)
   \<and> checked_pred (- 2) 0 = Inr ((0, Some ''negative''), Suc 0)
   \<and> MapErr [5, - 2] [] (Slice 1 1) checked_pred 0
        = Inr (((NewEmpty, []), Some ''negative''), Suc 0)
   \<and> (\<exists>o' h'. MapErr [5, - 2] [] (Slice 0 1) checked_pred 0 = Inr (((o', h'), None), Suc 0)
         \<and> Present h' o' 4)"
proof -
  have p: "Present [5, - 2 :: int] (Slice 0 1) 5"
    by (simp add: Present_def)
  have q: "Present [5, - 2 :: int] (Slice 1 1) (- 2)"
    by (simp add: Present_def)
  have c: "checked_pred 5 0 = Inr ((4, None), Suc 0)"
    by (simp add: checked_pred_def)
  have d: "checked_pred (- 2) 0 = Inr ((0, Some ''negative''), Suc 0)"
    by (simp add: checked_pred_def)
  from MapErr_contract [of "[5, - 2]" "[]" checked_pred 0 "Slice 0 1" 5 4 "''negative''"
      "Suc 0"] p c
  have s: "\<exists>o' h'. MapErr [5, - 2] [] (Slice 0 1) checked_pred 0 = Inr (((o', h'), None), Suc 0)
         \<and> Present h' o' 4"
    by simp
  from MapErr_contract [of "[5, - 2]" "[]" checked_pred 0 "Slice 1 1" "- 2" 0 "''negative''"
      "Suc 0"] q d
  have f: "MapErr [5, - 2] [] (Slice 1 1) checked_pred 0
        = Inr (((NewEmpty, []), Some ''negative''), Suc 0)"
    by simp
  from p q c d f s show ?thesis
    by (intro conjI)
qed

text \<open>
  C6. OrCall laziness. On an optional holding \<open>v\<close>, \<open>OrCall\<close> returns \<open>v\<close> whatever \<open>fn\<close> is
  and leaves the caller's state untouched: \<open>fn\<close> is not invoked (a counting supplier keeps
  its count). On the empty optional the outcome of \<open>OrCall\<close> is the outcome of one call of
  \<open>fn\<close>: its result is returned, and a counting supplier has counted exactly one call.
\<close>

theorem OrCall_lazy:
  "(Present h o' v \<longrightarrow> OrCall h o' fn w = Inr (v, w))
   \<and> (Present h o' v \<longrightarrow> OrCall h o' (counted (\<lambda>u. c) ()) n = Inr (v, n))
   \<and> OrCall h NewEmpty fn w = fn w
   \<and> OrCall h NewEmpty (counted (\<lambda>u. c) ()) n = Inr (c, Suc n)"
proof -
  have 1: "Present h o' v \<longrightarrow> OrCall h o' g s = Inr (v, s)" for g :: "('a, 's) call" and s
    by (simp add: OrCall_def Present_not_nil Present_index)
  have 3: "OrCall h NewEmpty fn w = fn w"
    by (simp add: OrCall_def NewEmpty_def)
  have 4: "OrCall h NewEmpty (counted (\<lambda>u. c) ()) n = Inr (c, Suc n)"
    by (simp add: OrCall_def NewEmpty_def counted_def)
  show ?thesis
    by (rule conjI [OF 1 conjI [OF 1 conjI [OF 3 4]]])
qed

theorem OrCall_lazy_witness:
  "Present [''string''] (Slice 0 1) ''string''
   \<and> OrCall [''string''] (Slice 0 1) (counted (\<lambda>u. ''orelse'') ()) 0 = Inr (''string'', 0)
   \<and> OrCall [''string''] NewEmpty (counted (\<lambda>u. ''orelse'') ()) 0 = Inr (''orelse'', Suc 0)"
proof -
  have p: "Present [''string''] (Slice 0 1) ''string''"
    by (simp add: Present_def)
  from OrCall_lazy [of "[''string'']" "Slice 0 1" "''string''"
      "counted (\<lambda>u. ''orelse'') ()" 0 "''orelse''" 0] p
  show ?thesis
    by (simp add: counted_def)
qed

section \<open>JSON encoding and decoding\<close>

lemma MarshalJSON_Present:
  "Present h o' v \<Longrightarrow> MarshalJSON json_Marshal zero h o' w = json_Marshal v w"
  by (simp add: MarshalJSON_def Present_Get)

lemma MarshalJSON_nil: "MarshalJSON json_Marshal zero h nil w = Inr ((''null'', None), w)"
  by (simp add: MarshalJSON_def Get_def)

lemma UnmarshalJSON_null:
  "t < length ho \<Longrightarrow>
     UnmarshalJSON json_Unmarshal zero ho h (Addr t) ''null'' w
       = Inr ((None, ho[t := nil], h), w)"
  by (simp add: UnmarshalJSON_def store_def NewEmpty_def)

lemma UnmarshalJSON_value:
  "data \<noteq> ''null'' \<Longrightarrow> json_Unmarshal data zero w = Inr ((v, None), w') \<Longrightarrow> t < length ho \<Longrightarrow>
     UnmarshalJSON json_Unmarshal zero ho h (Addr t) data w
       = Inr ((None, ho[t := Slice (length h) 1], h @ [v]), w')"
  by (simp add: UnmarshalJSON_def store_def New_def literal_def)

lemma UnmarshalJSON_error:
  "data \<noteq> ''null'' \<Longrightarrow> json_Unmarshal data zero w = Inr ((v, Some e), w') \<Longrightarrow>
     UnmarshalJSON json_Unmarshal zero ho h o' data w = Inr ((Some e, ho, h), w')"
  by (simp add: UnmarshalJSON_def)

lemma constructed_UnmarshalJSON:
  "t < length ho \<Longrightarrow>
     UnmarshalJSON json_Unmarshal zero ho h (Addr t) data w = Inr ((None, ho', h'), w') \<Longrightarrow>
     constructed h' (ho' ! t)"
  by (auto simp: UnmarshalJSON_def store_def New_def literal_def NewEmpty_def constructed_def
      split: if_splits sum.splits prod.splits)

text \<open>
  C10. Decode-failure atomicity. When \<open>UnmarshalJSON\<close> receives data that is not the
  \<open>null\<close> token and the decoder of the payload type returns an error, \<open>UnmarshalJSON\<close>
  returns that error and writes nothing: the store that holds the target optional and the
  store of the payload type are the ones it was given, so the target is in the state it had
  before the call.
\<close>

theorem UnmarshalJSON_failure_keeps_target:
  "data \<noteq> ''null'' \<and> json_Unmarshal data zero w = Inr ((v, Some e), w') \<longrightarrow>
     UnmarshalJSON json_Unmarshal zero ho h o' data w = Inr ((Some e, ho, h), w')"
  by (simp add: UnmarshalJSON_error)

theorem UnmarshalJSON_failure_keeps_target_witness:
  "''maybe'' \<noteq> ''null''
   \<and> json_Unmarshal_bool ''maybe'' False () = Inr ((False, Some DecodeError), ())
   \<and> UnmarshalJSON json_Unmarshal_bool False [Slice 0 1] [True] (Addr 0) ''maybe'' ()
        = Inr ((Some DecodeError, [Slice 0 1], [True]), ())
   \<and> Present [True] ([Slice 0 1] ! 0) True"
proof -
  have n: "''maybe'' \<noteq> ''null''"
    by simp
  have d: "json_Unmarshal_bool ''maybe'' False () = Inr ((False, Some DecodeError), ())"
    by (simp add: json_Unmarshal_bool_def)
  have p: "Present [True] ([Slice 0 1] ! 0) True"
    by (simp add: Present_def)
  from UnmarshalJSON_failure_keeps_target [of "''maybe''" json_Unmarshal_bool False "()" False
      DecodeError "()" "[Slice 0 1]" "[True]" "Addr 0"] n d
  have "UnmarshalJSON json_Unmarshal_bool False [Slice 0 1] [True] (Addr 0) ''maybe'' ()
        = Inr ((Some DecodeError, [Slice 0 1], [True]), ())"
    by simp
  with n d p show ?thesis
    by (intro conjI)
qed

text \<open>
  C1 as stated fails: the round trip of an optional holding \<open>v\<close> does not give back an
  optional holding \<open>v\<close> for every value \<open>v\<close> of every payload type. Take the payload type
  \<^verbatim>\<open>Optional[bool]\<close> and \<open>v\<close> the empty optional. \<open>New(v)\<close> is an optional that holds \<open>v\<close>;
  its encoding is the token \<open>null\<close>, because the held empty optional encodes itself so; and
  decoding \<open>null\<close> sets the target to the empty optional, which holds nothing.
\<close>

theorem json_roundtrip_counterexample:
  "New [] (NewEmpty :: bool Optional) = (Slice 0 1, [NewEmpty])
   \<and> Present [NewEmpty] (Slice 0 1) (NewEmpty :: bool Optional)
   \<and> MarshalJSON json_Marshal_Optional_bool NewEmpty [NewEmpty] (Slice 0 1) []
        = Inr ((''null'', None), [])
   \<and> UnmarshalJSON json_Unmarshal_Optional_bool NewEmpty [NewEmpty] [NewEmpty] (Addr 0)
        ''null'' []
        = Inr ((None, [NewEmpty], [NewEmpty]), [])
   \<and> Empty ([NewEmpty :: bool Optional Optional] ! 0)
   \<and> \<not> Present [NewEmpty] ([NewEmpty] ! 0) (NewEmpty :: bool Optional)"
  by (simp add: New_def literal_def NewEmpty_def Present_def Empty_def MarshalJSON_def
      Get_def index_def load_def json_Marshal_Optional_bool_def UnmarshalJSON_def store_def)

text \<open>
  C1, amended. For every value \<open>v\<close> whose encoding by the payload type's encoder succeeds,
  is not the token \<open>null\<close>, and is decoded back to \<open>v\<close> by the payload type's decoder:
  encoding an optional that holds \<open>v\<close> gives the encoding of \<open>v\<close>, and decoding it into a
  target leaves the target holding \<open>v\<close>. The empty optional encodes as \<open>null\<close>, and
  decoding \<open>null\<close> leaves the target empty.
\<close>

theorem json_roundtrip:
  "(Present h o' v \<and> json_Marshal v w = Inr ((data, None), w1) \<and> data \<noteq> ''null''
      \<and> json_Unmarshal data zero w1 = Inr ((v, None), w2) \<and> t < length ho \<longrightarrow>
      MarshalJSON json_Marshal zero h o' w = Inr ((data, None), w1)
      \<and> (\<exists>ho' h'. UnmarshalJSON json_Unmarshal zero ho h (Addr t) data w1
                    = Inr ((None, ho', h'), w2)
            \<and> Present h' (ho' ! t) v))
   \<and> MarshalJSON json_Marshal zero h NewEmpty w = Inr ((''null'', None), w)
   \<and> (t < length ho \<longrightarrow>
        (\<exists>ho'. UnmarshalJSON json_Unmarshal zero ho h (Addr t) ''null'' w
                 = Inr ((None, ho', h), w)
           \<and> Empty (ho' ! t)))"
proof -
  have 1: "Present h o' v \<and> json_Marshal v w = Inr ((data, None), w1) \<and> data \<noteq> ''null''
      \<and> json_Unmarshal data zero w1 = Inr ((v, None), w2) \<and> t < length ho \<longrightarrow>
      MarshalJSON json_Marshal zero h o' w = Inr ((data, None), w1)
      \<and> (\<exists>ho' h'. UnmarshalJSON json_Unmarshal zero ho h (Addr t) data w1
                    = Inr ((None, ho', h'), w2)
            \<and> Present h' (ho' ! t) v)"
  proof (intro impI, elim conjE)
    assume p: "Present h o' v" and m: "json_Marshal v w = Inr ((data, None), w1)"
      and n: "data \<noteq> ''null''" and u: "json_Unmarshal data zero w1 = Inr ((v, None), w2)"
      and t: "t < length ho"
    from p m have enc: "MarshalJSON json_Marshal zero h o' w = Inr ((data, None), w1)"
      by (simp add: MarshalJSON_Present)
    from n u t have dec: "UnmarshalJSON json_Unmarshal zero ho h (Addr t) data w1
        = Inr ((None, ho[t := Slice (length h) 1], h @ [v]), w2)"
      by (rule UnmarshalJSON_value)
    from t have "Present (h @ [v]) (ho[t := Slice (length h) 1] ! t) v"
      by (simp add: Present_def)
    with dec have "\<exists>ho' h'. UnmarshalJSON json_Unmarshal zero ho h (Addr t) data w1
                    = Inr ((None, ho', h'), w2)
            \<and> Present h' (ho' ! t) v"
      by simp
    with enc show "MarshalJSON json_Marshal zero h o' w = Inr ((data, None), w1)
      \<and> (\<exists>ho' h'. UnmarshalJSON json_Unmarshal zero ho h (Addr t) data w1
                    = Inr ((None, ho', h'), w2)
            \<and> Present h' (ho' ! t) v)"
      by (rule conjI)
  qed
  have 2: "MarshalJSON json_Marshal zero h NewEmpty w = Inr ((''null'', None), w)"
    by (simp add: MarshalJSON_nil NewEmpty_def)
  have 3: "t < length ho \<longrightarrow>
        (\<exists>ho'. UnmarshalJSON json_Unmarshal zero ho h (Addr t) ''null'' w
                 = Inr ((None, ho', h), w)
           \<and> Empty (ho' ! t))"
    by (simp add: UnmarshalJSON_null Empty_def)
  show ?thesis
    by (rule conjI [OF 1 conjI [OF 2 3]])
qed

theorem json_roundtrip_witness:
  "Present [True] (Slice 0 1) True
   \<and> json_Marshal_bool True () = Inr ((''true'', None), ())
   \<and> ''true'' \<noteq> ''null''
   \<and> json_Unmarshal_bool ''true'' False () = Inr ((True, None), ())
   \<and> (0::nat) < length [NewEmpty :: bool Optional]
   \<and> MarshalJSON json_Marshal_bool False [True] (Slice 0 1) () = Inr ((''true'', None), ())
   \<and> (\<exists>ho' h'. UnmarshalJSON json_Unmarshal_bool False [NewEmpty] [True] (Addr 0) ''true'' ()
                  = Inr ((None, ho', h'), ())
         \<and> Present h' (ho' ! 0) True)"
proof -
  have p: "Present [True] (Slice 0 1) True"
    by (simp add: Present_def)
  have m: "json_Marshal_bool True () = Inr ((''true'', None), ())"
    by (simp add: json_Marshal_bool_def)
  have n: "''true'' \<noteq> ''null''"
    by simp
  have u: "json_Unmarshal_bool ''true'' False () = Inr ((True, None), ())"
    by (simp add: json_Unmarshal_bool_def)
  have t: "(0::nat) < length [NewEmpty :: bool Optional]"
    by simp
  from json_roundtrip [of "[True]" "Slice 0 1" True json_Marshal_bool "()" "''true''" "()"
      json_Unmarshal_bool False "()" 0 "[NewEmpty]"] p m n u t
  have r: "MarshalJSON json_Marshal_bool False [True] (Slice 0 1) () = Inr ((''true'', None), ())
   \<and> (\<exists>ho' h'. UnmarshalJSON json_Unmarshal_bool False [NewEmpty] [True] (Addr 0) ''true'' ()
                  = Inr ((None, ho', h'), ())
         \<and> Present h' (ho' ! 0) True)"
    by blast
  from p m n u t r show ?thesis
    by (intro conjI) simp_all
qed

section \<open>The two states of the optionals the package builds\<close>

lemma constructed_one_of_two_states: "constructed h o' \<Longrightarrow> one_of_two_states h o'"
  by (auto simp: Empty_def Ok_def dest: constructed_cases Present_not_nil)

text \<open>
  C8 as stated fails: not every optional is in one of the two states. The type is an
  exported slice type, so the caller can write the composite literal
  \<^verbatim>\<open>opt.Optional[bool]{}\<close>, a non-nil slice of length 0. It is not empty, it holds neither
  \<open>true\<close> nor \<open>false\<close>, its \<open>Ok\<close> is true, and \<open>Get\<close> panics on it.
\<close>

theorem two_states_counterexample:
  "literal [] ([] :: bool list) = (Slice 0 0, [])
   \<and> \<not> Empty (Slice 0 0 :: bool Optional)
   \<and> \<not> Present [] (Slice 0 0) True
   \<and> \<not> Present [] (Slice 0 0) False
   \<and> Ok (Slice 0 0 :: bool Optional)
   \<and> Get False [] (Slice 0 0) = Inl IndexOutOfRange"
  by (simp add: literal_def Empty_def Present_def Ok_def Get_def index_def)

text \<open>
  C8, amended. Presence is the only discriminant of the optionals the package builds. For
  every value \<open>v\<close>, the zero value included, \<open>New(v)\<close> holds \<open>v\<close> and its \<open>Ok\<close> is true;
  \<open>Ok\<close> of \<open>NewEmpty\<close> is false, so an optional holding the zero value is told apart from
  the empty one by \<open>Ok\<close>. \<open>Ok\<close> is true exactly when the optional is not empty, no optional
  is both empty and holding a value, and none holds two values. Every optional returned by
  \<open>NewEmpty\<close>, \<open>New\<close>, \<open>NewSafe\<close>, \<open>NewMap\<close>, \<open>NewIf\<close>, \<open>NewPtr\<close>, \<open>NewPtrMap\<close>,
  \<open>NewPtrIf\<close>, \<open>NewPtrOr\<close>, \<open>Map\<close> and \<open>MapErr\<close>, and every target a successful
  \<open>UnmarshalJSON\<close> has written, is in exactly one of the two states Empty and Present, and
  \<open>Ok\<close> says which.
\<close>

theorem presence_is_the_discriminant:
  "Ok (fst (New h v)) \<and> Present (snd (New h v)) (fst (New h v)) v
   \<and> Ok (fst (New h zero)) \<and> Present (snd (New h zero)) (fst (New h zero)) zero
   \<and> \<not> Ok (NewEmpty :: 'a Optional) \<and> Empty (NewEmpty :: 'a Optional)
   \<and> Ok (fst (New h zero)) \<noteq> Ok (NewEmpty :: 'a Optional)
   \<and> Ok o' = (\<not> Empty o')
   \<and> (Present h' o' x \<longrightarrow> \<not> Empty o')
   \<and> (Present h' o' x \<and> Present h' o' y \<longrightarrow> x = y)
   \<and> one_of_two_states h (NewEmpty :: 'a Optional)
   \<and> one_of_two_states (snd (New h v)) (fst (New h v))
   \<and> one_of_two_states (snd (NewSafe h v ok)) (fst (NewSafe h v ok))
   \<and> (NewMap hb u fm w = Inr ((r1, g1), w1) \<longrightarrow> one_of_two_states g1 r1)
   \<and> (NewIf h v fi w = Inr ((r2, g2), w2) \<longrightarrow> one_of_two_states g2 r2)
   \<and> (NewPtr h ptr = Inr (r3, g3) \<longrightarrow> one_of_two_states g3 r3)
   \<and> (NewPtrMap hp hb ptr fm w = Inr ((r4, g4), w4) \<longrightarrow> one_of_two_states g4 r4)
   \<and> (NewPtrIf h ptr fp w = Inr ((r5, g5), w5) \<longrightarrow> one_of_two_states g5 r5)
   \<and> (NewPtrOr h ptr fallback = Inr (r6, g6) \<longrightarrow> one_of_two_states g6 r6)
   \<and> (Map hp hb in' fm w = Inr ((r7, g7), w7) \<longrightarrow> one_of_two_states g7 r7)
   \<and> (MapErr hp hb in' fe w = Inr (((r8, g8), e8), w8) \<longrightarrow> one_of_two_states g8 r8)
   \<and> (t < length ho \<and> UnmarshalJSON ju zero ho h (Addr t) data wj = Inr ((None, ho', g9), w9)
        \<longrightarrow> one_of_two_states g9 (ho' ! t))"
proof -
  have k1: "Ok (fst (New h v))"
    by (simp add: New_def literal_def Ok_def)
  have k2: "Present (snd (New h v)) (fst (New h v)) v"
    by (simp add: New_def literal_def Present_def)
  have k3: "Ok (fst (New h zero))"
    by (simp add: New_def literal_def Ok_def)
  have k4: "Present (snd (New h zero)) (fst (New h zero)) zero"
    by (simp add: New_def literal_def Present_def)
  have k5: "\<not> Ok (NewEmpty :: 'a Optional)"
    by (simp add: NewEmpty_def Ok_def)
  have k6: "Empty (NewEmpty :: 'a Optional)"
    by (simp add: NewEmpty_def Empty_def)
  from k3 k5 have apart: "Ok (fst (New h zero)) \<noteq> Ok (NewEmpty :: 'a Optional)"
    by simp
  have disc: "Ok o' = (\<not> Empty o')"
    by (simp add: Ok_def Empty_def)
  have excl: "Present h' o' x \<longrightarrow> \<not> Empty o'"
    by (simp add: Empty_def Present_not_nil)
  have one: "Present h' o' x \<and> Present h' o' y \<longrightarrow> x = y"
    by (auto dest: Present_unique)
  have c0: "one_of_two_states h (NewEmpty :: 'a Optional)"
    by (rule constructed_one_of_two_states [OF constructed_NewEmpty])
  have c1: "one_of_two_states (snd (New h v)) (fst (New h v))"
    by (rule constructed_one_of_two_states [OF constructed_New]) simp
  have c2: "one_of_two_states (snd (NewSafe h v ok)) (fst (NewSafe h v ok))"
    by (rule constructed_one_of_two_states [OF constructed_NewSafe]) simp
  have c3: "NewMap hb u fm w = Inr ((r1, g1), w1) \<longrightarrow> one_of_two_states g1 r1"
    by (intro impI constructed_one_of_two_states) (rule constructed_NewMap)
  have c4: "NewIf h v fi w = Inr ((r2, g2), w2) \<longrightarrow> one_of_two_states g2 r2"
    by (intro impI constructed_one_of_two_states) (rule constructed_NewIf)
  have c5: "NewPtr h ptr = Inr (r3, g3) \<longrightarrow> one_of_two_states g3 r3"
    by (intro impI constructed_one_of_two_states) (rule constructed_NewPtr)
  have c6: "NewPtrMap hp hb ptr fm w = Inr ((r4, g4), w4) \<longrightarrow> one_of_two_states g4 r4"
    by (intro impI constructed_one_of_two_states) (rule constructed_NewPtrMap)
  have c7: "NewPtrIf h ptr fp w = Inr ((r5, g5), w5) \<longrightarrow> one_of_two_states g5 r5"
    by (intro impI constructed_one_of_two_states) (rule constructed_NewPtrIf)
  have c8: "NewPtrOr h ptr fallback = Inr (r6, g6) \<longrightarrow> one_of_two_states g6 r6"
    by (intro impI constructed_one_of_two_states) (rule constructed_NewPtrOr)
  have c9: "Map hp hb in' fm w = Inr ((r7, g7), w7) \<longrightarrow> one_of_two_states g7 r7"
    by (intro impI constructed_one_of_two_states) (rule constructed_Map)
  have c10: "MapErr hp hb in' fe w = Inr (((r8, g8), e8), w8) \<longrightarrow> one_of_two_states g8 r8"
    by (intro impI constructed_one_of_two_states) (rule constructed_MapErr)
  have c11: "t < length ho
      \<and> UnmarshalJSON ju zero ho h (Addr t) data wj = Inr ((None, ho', g9), w9)
        \<longrightarrow> one_of_two_states g9 (ho' ! t)"
  proof (intro impI, elim conjE)
    assume "t < length ho"
      and "UnmarshalJSON ju zero ho h (Addr t) data wj = Inr ((None, ho', g9), w9)"
    then have "constructed g9 (ho' ! t)"
      by (rule constructed_UnmarshalJSON)
    then show "one_of_two_states g9 (ho' ! t)"
      by (rule constructed_one_of_two_states)
  qed
  show ?thesis
    by (rule conjI [OF k1 conjI [OF k2 conjI [OF k3 conjI [OF k4 conjI [OF k5 conjI [OF k6 conjI [OF apart conjI [OF disc conjI [OF excl conjI [OF one conjI [OF c0 conjI [OF c1 conjI [OF c2 conjI [OF c3 conjI [OF c4 conjI [OF c5 conjI [OF c6 conjI [OF c7 conjI [OF c8 conjI [OF c9 conjI [OF c10 c11]]]]]]]]]]]]]]]]]]]]])
qed

theorem presence_is_the_discriminant_witness:
  "Present [5::int] (Slice 0 1) 5
   \<and> NewMap [] (7::int) (counted (\<lambda>x. x + 1)) 0 = Inr ((Slice 0 1, [8::int]), Suc 0)
   \<and> NewIf [5::int] 7 (counted (\<lambda>x. 0 < x)) 0 = Inr ((Slice 1 1, [5, 7]), Suc 0)
   \<and> NewPtr [5::int] (Addr 0) = Inr (Slice 1 1, [5, 5])
   \<and> NewPtrMap [5::int] [] (Addr 0) (counted (\<lambda>x. x + 1)) 0
        = Inr ((Slice 0 1, [6::int]), Suc 0)
   \<and> NewPtrIf [5::int] (Addr 0) (rewriting 99) 0 = Inr ((Slice 1 1, [99, 99]), Suc 0)
   \<and> NewPtrOr [5::int] (Addr 0) 9 = Inr (Slice 1 1, [5, 5])
   \<and> Map [5::int] [] (Slice 0 1) (counted (\<lambda>x. x + 1)) 0 = Inr ((Slice 0 1, [6::int]), Suc 0)
   \<and> MapErr [5::int] [] (Slice 0 1) checked_pred 0 = Inr (((Slice 0 1, [4]), None), Suc 0)
   \<and> (0::nat) < length [NewEmpty :: bool Optional]
   \<and> UnmarshalJSON json_Unmarshal_bool False [NewEmpty] [] (Addr 0) ''true'' ()
        = Inr ((None, [Slice 0 1], [True]), ())
   \<and> \<not> Empty (Slice 0 1 :: int Optional)
   \<and> one_of_two_states [8::int] (Slice 0 1)
   \<and> one_of_two_states [5, 7::int] (Slice 1 1)
   \<and> one_of_two_states [5, 5::int] (Slice 1 1)
   \<and> one_of_two_states [6::int] (Slice 0 1)
   \<and> one_of_two_states [99, 99::int] (Slice 1 1)
   \<and> one_of_two_states [4::int] (Slice 0 1)
   \<and> one_of_two_states [True] ([Slice 0 1] ! 0)"
proof -
  have p: "Present [5::int] (Slice 0 1) 5"
    by (simp add: Present_def)
  have a1: "NewMap [] (7::int) (counted (\<lambda>x. x + 1)) 0 = Inr ((Slice 0 1, [8::int]), Suc 0)"
    by (simp add: NewMap_def counted_def New_def literal_def)
  have a2: "NewIf [5::int] 7 (counted (\<lambda>x. 0 < x)) 0 = Inr ((Slice 1 1, [5, 7]), Suc 0)"
    by (simp add: NewIf_def counted_def New_def literal_def)
  have a3: "NewPtr [5::int] (Addr 0) = Inr (Slice 1 1, [5, 5])"
    by (simp add: NewPtr_Addr)
  have a4: "NewPtrMap [5::int] [] (Addr 0) (counted (\<lambda>x. x + 1)) 0
        = Inr ((Slice 0 1, [6::int]), Suc 0)"
    by (simp add: NewPtrMap_def deref_def load_def counted_def New_def literal_def)
  have a5: "NewPtrIf [5::int] (Addr 0) (rewriting 99) 0 = Inr ((Slice 1 1, [99, 99]), Suc 0)"
    by (simp add: NewPtrIf_def deref_def load_def rewriting_def New_def literal_def)
  have a6: "NewPtrOr [5::int] (Addr 0) 9 = Inr (Slice 1 1, [5, 5])"
    by (simp add: NewPtrOr_Addr)
  have a7: "Map [5::int] [] (Slice 0 1) (counted (\<lambda>x. x + 1)) 0
        = Inr ((Slice 0 1, [6::int]), Suc 0)"
    by (simp add: Map_def index_def load_def counted_def literal_def)
  have a8: "MapErr [5::int] [] (Slice 0 1) checked_pred 0
        = Inr (((Slice 0 1, [4]), None), Suc 0)"
    by (simp add: MapErr_def index_def load_def checked_pred_def literal_def)
  have a9: "(0::nat) < length [NewEmpty :: bool Optional]"
    by simp
  have a10: "UnmarshalJSON json_Unmarshal_bool False [NewEmpty] [] (Addr 0) ''true'' ()
        = Inr ((None, [Slice 0 1], [True]), ())"
    by (simp add: UnmarshalJSON_def json_Unmarshal_bool_def New_def literal_def store_def)
  note T = presence_is_the_discriminant [where h = "[5::int]" and v = 7 and zero = 0
      and o' = "Slice 0 1" and h' = "[5]" and x = 5 and y = 5 and ok = True
      and hb = "[] :: int list" and u = "7::int" and fm = "counted (\<lambda>x. x + 1)" and w = 0
      and ?r1.0 = "Slice 0 1" and ?g1.0 = "[8]" and ?w1.0 = "Suc 0"
      and fi = "counted (\<lambda>x. 0 < x)" and ?r2.0 = "Slice 1 1" and ?g2.0 = "[5, 7]"
      and ?w2.0 = "Suc 0"
      and ptr = "Addr 0" and ?r3.0 = "Slice 1 1" and ?g3.0 = "[5, 5]"
      and hp = "[5::int]" and ?r4.0 = "Slice 0 1" and ?g4.0 = "[6]" and ?w4.0 = "Suc 0"
      and fp = "rewriting 99" and ?r5.0 = "Slice 1 1" and ?g5.0 = "[99, 99]"
      and ?w5.0 = "Suc 0"
      and fallback = 9 and ?r6.0 = "Slice 1 1" and ?g6.0 = "[5, 5]"
      and in' = "Slice 0 1" and ?r7.0 = "Slice 0 1" and ?g7.0 = "[6]" and ?w7.0 = "Suc 0"
      and fe = checked_pred and ?r8.0 = "Slice 0 1" and ?g8.0 = "[4]" and ?e8.0 = None
      and ?w8.0 = "Suc 0"]
  have b0: "\<not> Empty (Slice 0 1 :: int Optional)"
    by (rule T [THEN conjunct2, THEN conjunct2, THEN conjunct2, THEN conjunct2, THEN conjunct2, THEN conjunct2, THEN conjunct2, THEN conjunct2, THEN conjunct1, THEN mp, OF p])
  have b1: "one_of_two_states [8::int] (Slice 0 1)"
    by (rule T [THEN conjunct2, THEN conjunct2, THEN conjunct2, THEN conjunct2, THEN conjunct2, THEN conjunct2, THEN conjunct2, THEN conjunct2, THEN conjunct2, THEN conjunct2, THEN conjunct2, THEN conjunct2, THEN conjunct2, THEN conjunct1, THEN mp, OF a1])
  have b2: "one_of_two_states [5, 7::int] (Slice 1 1)"
    by (rule T [THEN conjunct2, THEN conjunct2, THEN conjunct2, THEN conjunct2, THEN conjunct2, THEN conjunct2, THEN conjunct2, THEN conjunct2, THEN conjunct2, THEN conjunct2, THEN conjunct2, THEN conjunct2, THEN conjunct2, THEN conjunct2, THEN conjunct1, THEN mp, OF a2])
  have b3: "one_of_two_states [5, 5::int] (Slice 1 1)"
    by (rule T [THEN conjunct2, THEN conjunct2, THEN conjunct2, THEN conjunct2, THEN conjunct2, THEN conjunct2, THEN conjunct2, THEN conjunct2, THEN conjunct2, THEN conjunct2, THEN conjunct2, THEN conjunct2, THEN conjunct2, THEN conjunct2, THEN conjunct2, THEN conjunct1, THEN mp, OF a3])
  have b4: "one_of_two_states [6::int] (Slice 0 1)"
    by (rule T [THEN conjunct2, THEN conjunct2, THEN conjunct2, THEN conjunct2, THEN conjunct2, THEN conjunct2, THEN conjunct2, THEN conjunct2, THEN conjunct2, THEN conjunct2, THEN conjunct2, THEN conjunct2, THEN conjunct2, THEN conjunct2, THEN conjunct2, THEN conjunct2, THEN conjunct1, THEN mp, OF a4])
  have b5: "one_of_two_states [99, 99::int] (Slice 1 1)"
    by (rule T [THEN conjunct2, THEN conjunct2, THEN conjunct2, THEN conjunct2, THEN conjunct2, THEN conjunct2, THEN conjunct2, THEN conjunct2, THEN conjunct2, THEN conjunct2, THEN conjunct2, THEN conjunct2, THEN conjunct2, THEN conjunct2, THEN conjunct2, THEN conjunct2, THEN conjunct2, THEN conjunct1, THEN mp, OF a5])
  have b6: "one_of_two_states [5, 5::int] (Slice 1 1)"
    by (rule T [THEN conjunct2, THEN conjunct2, THEN conjunct2, THEN conjunct2, THEN conjunct2, THEN conjunct2, THEN conjunct2, THEN conjunct2, THEN conjunct2, THEN conjunct2, THEN conjunct2, THEN conjunct2, THEN conjunct2, THEN conjunct2, THEN conjunct2, THEN conjunct2, THEN conjunct2, THEN conjunct2, THEN conjunct1, THEN mp, OF a6])
  have b8: "one_of_two_states [6::int] (Slice 0 1)"
    by (rule T [THEN conjunct2, THEN conjunct2, THEN conjunct2, THEN conjunct2, THEN conjunct2, THEN conjunct2, THEN conjunct2, THEN conjunct2, THEN conjunct2, THEN conjunct2, THEN conjunct2, THEN conjunct2, THEN conjunct2, THEN conjunct2, THEN conjunct2, THEN conjunct2, THEN conjunct2, THEN conjunct2, THEN conjunct2, THEN conjunct1, THEN mp, OF a7])
  have b7: "one_of_two_states [4::int] (Slice 0 1)"
    by (rule T [THEN conjunct2, THEN conjunct2, THEN conjunct2, THEN conjunct2, THEN conjunct2, THEN conjunct2, THEN conjunct2, THEN conjunct2, THEN conjunct2, THEN conjunct2, THEN conjunct2, THEN conjunct2, THEN conjunct2, THEN conjunct2, THEN conjunct2, THEN conjunct2, THEN conjunct2, THEN conjunct2, THEN conjunct2, THEN conjunct2, THEN conjunct1, THEN mp, OF a8])
  note J = presence_is_the_discriminant [where h = "[] :: bool list" and ju = json_Unmarshal_bool
      and zero = False and ho = "[NewEmpty]" and t = 0 and data = "''true''" and wj = "()"
      and ho' = "[Slice 0 1]" and ?g9.0 = "[True]" and ?w9.0 = "()"]
  have b9: "one_of_two_states [True] ([Slice 0 1] ! 0)"
    by (rule J [THEN conjunct2, THEN conjunct2, THEN conjunct2, THEN conjunct2, THEN conjunct2, THEN conjunct2, THEN conjunct2, THEN conjunct2, THEN conjunct2, THEN conjunct2, THEN conjunct2, THEN conjunct2, THEN conjunct2, THEN conjunct2, THEN conjunct2, THEN conjunct2, THEN conjunct2, THEN conjunct2, THEN conjunct2, THEN conjunct2, THEN conjunct2, THEN mp, OF conjI [OF a9 a10]])
  show ?thesis
    by (intro conjI p a1 a2 a3 a4 a5 a6 a7 a8 a9 a10 b0 b1 b2 b3 b4 b5 b7 b9)
qed

end
